theory Spec2Isabelle
  imports Main "HOL-Library.Word"
begin

unbundle bit_operations_syntax

section \<open>Bytes, buffers and integers in memory\<close>

text \<open>
  Modelled from the spec: \<^verbatim>\<open>secure_id_t\<close> and \<^verbatim>\<open>salt_t\<close> are declared outside this
  file. A secure identity is an opaque 64-bit value; the salt is a fixed-size random value,
  taken as 64 bits as well.
\<close>

type_synonym u8 = "8 word"
type_synonym secure_id_t = "64 word"
type_synonym salt_t = "64 word"

text \<open>
  \<^verbatim>\<open>uint8_t signature[32]\<close> and \<^verbatim>\<open>uint8_t hmac[32]\<close>: an array of exactly 32 bytes,
  kept as one 256-bit value whose byte \<open>i\<close> is the array's element \<open>i\<close>.
\<close>

type_synonym signature_t = "256 word"

text \<open>
  A \<^verbatim>\<open>SizedBuffer\<close> is a pointer with a length. \<open>None\<close> is the NULL buffer,
  \<open>Some bs\<close> a buffer holding the bytes \<open>bs\<close>, its \<^verbatim>\<open>length\<close> being \<open>length bs\<close>.
\<close>

type_synonym SizedBuffer = "u8 list option"

text \<open>
  The object representation of an integer of \<open>n\<close> bytes, least significant byte first,
  and the value read back from such bytes.
\<close>

definition to_bytes :: "nat \<Rightarrow> 'a::len word \<Rightarrow> u8 list" where
  "to_bytes n w = map (\<lambda>i. ucast (drop_bit (8 * i) w)) [0..<n]"

fun from_bytes :: "u8 list \<Rightarrow> 'a::len word" where
  "from_bytes [] = 0"
| "from_bytes (b # bs) = ucast b OR push_bit 8 (from_bytes bs)"

text \<open>
  A read through a pointer is defined only inside the buffer it points into. The outcome
  of a function that dereferences a handle pointer is either a returned value or
  \<open>OutOfBounds\<close>, the read past the end of the buffer that C++ leaves undefined.
\<close>

datatype 'a exec = OutOfBounds | Returns 'a

text \<open>
  Modelled from the spec: \<^verbatim>\<open>memcmp_s\<close> is declared outside this file; it is the
  byte-for-byte equality check over \<open>n\<close> bytes, 0 when they agree.
\<close>

definition memcmp_s :: "u8 list \<Rightarrow> u8 list \<Rightarrow> nat \<Rightarrow> int" where
  "memcmp_s p1 p2 n = (if take n p1 = take n p2 then 0 else 1)"

section \<open>The password handle\<close>

definition HANDLE_VERSION :: u8 where
  "HANDLE_VERSION = 0"

record password_handle_t =
  version :: u8
  user_id :: secure_id_t
  authenticator_id :: secure_id_t
  salt :: salt_t
  signature :: signature_t

text \<open>The packed struct in memory: the fields in declaration order, no padding.\<close>

definition handle_bytes :: "password_handle_t \<Rightarrow> u8 list" where
  "handle_bytes h =
     [version h] @ to_bytes 8 (user_id h) @ to_bytes 8 (authenticator_id h)
       @ to_bytes 8 (salt h) @ to_bytes 32 (signature h)"

definition sizeof_password_handle_t :: nat where
  "sizeof_password_handle_t = 1 + 8 + 8 + 8 + 32"

text \<open>
  \<^verbatim>\<open>reinterpret_cast<password_handle_t *>(buffer)\<close>: the fields as read through the
  cast pointer, each from its offset in the packed layout.
\<close>

definition handle_at :: "u8 list \<Rightarrow> password_handle_t" where
  "handle_at buf =
     \<lparr> version = buf ! 0,
       user_id = from_bytes (take 8 (drop 1 buf)),
       authenticator_id = from_bytes (take 8 (drop 9 buf)),
       salt = from_bytes (take 8 (drop 17 buf)),
       signature = from_bytes (take 32 (drop 25 buf)) \<rparr>"

section \<open>Messages\<close>

text \<open>
  Modelled from the spec: the request and response messages are declared outside this file.
  \<^verbatim>\<open>Enroll(userId, oldHandle?, oldPassword?, newPassword) -> {handle} | {error}\<close> and
  \<^verbatim>\<open>Verify(userId, handle, password) -> {token} | {error}\<close>; the error is one
  discriminant value, \<^verbatim>\<open>ERROR_INVALID\<close>, and a response that no failure path touched
  keeps the value it was created with, \<^verbatim>\<open>ERROR_NONE\<close>. The field names are those the
  source file uses; the request's \<^verbatim>\<open>user_id\<close> is written \<open>request_user_id\<close>, the
  handle struct having a field \<^verbatim>\<open>user_id\<close> of its own.
\<close>

datatype gatekeeper_error_t = ERROR_NONE | ERROR_INVALID

text \<open>
  Modelled from the spec: \<^verbatim>\<open>AuthToken\<close> is declared outside this file. It is
  \<open>{ rootSecureId, auxiliarySecureId, timestamp: u32, hmac: 32 bytes }\<close>, and the hmac
  covers all preceding fields in declaration order.
\<close>

record AuthToken =
  root_secure_user_id :: secure_id_t
  auxiliary_secure_user_id :: secure_id_t
  timestamp :: "32 word"
  hmac :: signature_t

record GateKeeperMessage =
  error :: gatekeeper_error_t

record EnrollResponse = GateKeeperMessage +
  enrolled_password_handle :: SizedBuffer

record VerifyResponse = GateKeeperMessage +
  verification_token :: "AuthToken option"

record VerifyRequest =
  request_user_id :: "32 word"
  password_handle :: SizedBuffer
  provided_password :: SizedBuffer

record EnrollRequest = VerifyRequest +
  enrolled_password :: SizedBuffer

text \<open>
  Modelled from the spec: the two setters are declared outside this file; each stores the
  handle, or the token, in the response handed back to the caller.
\<close>

definition SetEnrolledPasswordHandle :: "EnrollResponse \<Rightarrow> u8 list \<Rightarrow> EnrollResponse" where
  "SetEnrolledPasswordHandle response buf = response\<lparr>enrolled_password_handle := Some buf\<rparr>"

definition SetVerificationToken :: "VerifyResponse \<Rightarrow> AuthToken \<Rightarrow> VerifyResponse" where
  "SetVerificationToken response token = response\<lparr>verification_token := Some token\<rparr>"

section \<open>The collaborators behind the pure virtual methods\<close>

text \<open>
  The GateKeeper object with everything its pure virtual methods reach: the password
  file store with the calls of \<^verbatim>\<open>WritePasswordFile\<close> so far, the random source as a
  tape of bytes with a read position, the two keys of the key service (\<open>None\<close> when
  the service hands out nothing), the monotonic clock, and the two signature primitives
  as functions of their inputs.
\<close>

record GateKeeper =
  password_files :: "32 word \<Rightarrow> SizedBuffer"
  file_writes :: "(32 word \<times> u8 list) list"
  random_tape :: "nat \<Rightarrow> u8"
  random_pos :: nat
  password_key :: SizedBuffer
  auth_token_key :: SizedBuffer
  monotonic_sec :: int
  ComputePasswordSignature :: "u8 list \<Rightarrow> u8 list \<Rightarrow> salt_t \<Rightarrow> signature_t"
  ComputeSignature :: "SizedBuffer \<Rightarrow> u8 list \<Rightarrow> signature_t"

text \<open>
  Modelled from the spec: \<^verbatim>\<open>GetRandom(buffer, length)\<close> fills the buffer with random
  bytes and has no failure mode.
\<close>

definition GetRandom :: "GateKeeper \<Rightarrow> nat \<Rightarrow> u8 list \<times> GateKeeper" where
  "GetRandom gk n =
     (map (random_tape gk) [random_pos gk..<random_pos gk + n],
      gk\<lparr>random_pos := random_pos gk + n\<rparr>)"

text \<open>
  Modelled from the spec: \<^verbatim>\<open>GetPasswordKey\<close> and \<^verbatim>\<open>GetAuthTokenKey\<close> retrieve key
  material; an empty or absent result signals that the key is unavailable.
\<close>

definition GetPasswordKey :: "GateKeeper \<Rightarrow> SizedBuffer" where
  "GetPasswordKey gk = password_key gk"

definition GetAuthTokenKey :: "GateKeeper \<Rightarrow> SizedBuffer" where
  "GetAuthTokenKey gk = auth_token_key gk"

text \<open>
  Modelled from the spec: \<^verbatim>\<open>ReadPasswordFile(userId) -> bytes | absent\<close> and
  \<^verbatim>\<open>WritePasswordFile(userId, bytes)\<close>, per-identity persisted handle storage with
  overwrite semantics.
\<close>

definition ReadPasswordFile :: "GateKeeper \<Rightarrow> 32 word \<Rightarrow> SizedBuffer" where
  "ReadPasswordFile gk uid = password_files gk uid"

definition WritePasswordFile :: "GateKeeper \<Rightarrow> 32 word \<Rightarrow> u8 list \<Rightarrow> GateKeeper" where
  "WritePasswordFile gk uid buf =
     gk\<lparr>password_files := (password_files gk)(uid := Some buf),
        file_writes := file_writes gk @ [(uid, buf)]\<rparr>"

section \<open>The operations of gatekeeper.cpp\<close>

text \<open>
  The bytes handed to the signature primitive: \<^verbatim>\<open>metadata_length\<close> bytes copied from
  the address of the struct's \<^verbatim>\<open>version\<close> field, followed by the password.
\<close>

definition metadata_length :: nat where
  "metadata_length = 8 + 8 + 1"

definition to_sign :: "password_handle_t \<Rightarrow> u8 list \<Rightarrow> u8 list" where
  "to_sign h password = take metadata_length (handle_bytes h) @ password"

text \<open>
  \<^verbatim>\<open>CreatePasswordHandle\<close> returns \<open>None\<close> where the source returns false, and the
  handle buffer where it returns true. When the signed bytes are copied the signature
  field has not been written yet; the copy stops before it, and the field is 0 here.
\<close>

definition CreatePasswordHandle ::
  "GateKeeper \<Rightarrow> salt_t \<Rightarrow> secure_id_t \<Rightarrow> secure_id_t \<Rightarrow> u8 list \<Rightarrow> SizedBuffer" where
  "CreatePasswordHandle gk slt uid aid password =
     (let h = \<lparr> version = HANDLE_VERSION, user_id = uid, authenticator_id = aid,
                salt = slt, signature = 0 \<rparr>;
          msg = to_sign h password
      in case GetPasswordKey gk of
           None \<Rightarrow> None
         | Some key \<Rightarrow>
             if length key = 0 then None
             else Some (handle_bytes
                    (h\<lparr>signature := ComputePasswordSignature gk key msg slt\<rparr>)))"

text \<open>
  \<^verbatim>\<open>DoVerify\<close> reads salt, user id and authenticator id through the handle pointer
  (the first 25 bytes of the struct) and, once the handle is rebuilt, compares
  \<^verbatim>\<open>sizeof(*expected_handle)\<close> bytes.
\<close>

definition DoVerify :: "GateKeeper \<Rightarrow> u8 list \<Rightarrow> SizedBuffer \<Rightarrow> bool exec" where
  "DoVerify gk expected_handle password =
     (case password of
        None \<Rightarrow> Returns False
      | Some pw \<Rightarrow>
          if length expected_handle < 1 + 8 + 8 + 8 then OutOfBounds
          else
            (let e = handle_at expected_handle in
             case CreatePasswordHandle gk (salt e) (user_id e) (authenticator_id e) pw of
               None \<Rightarrow> Returns False
             | Some provided_handle \<Rightarrow>
                 if length expected_handle < sizeof_password_handle_t then OutOfBounds
                 else Returns (memcmp_s provided_handle expected_handle
                                 sizeof_password_handle_t = 0)))"

definition ValidatePasswordFile :: "GateKeeper \<Rightarrow> 32 word \<Rightarrow> SizedBuffer \<Rightarrow> bool" where
  "ValidatePasswordFile gk uid provided_handle =
     (case ReadPasswordFile gk uid of
        None \<Rightarrow> False
      | Some stored_handle \<Rightarrow>
          if length stored_handle = 0 then False
          else (case provided_handle of
                  None \<Rightarrow> False
                | Some provided \<Rightarrow>
                    length stored_handle = length provided \<and>
                    memcmp_s stored_handle provided (length stored_handle) = 0))"

text \<open>
  \<^verbatim>\<open>MintAuthToken\<close> is a void function: it fills the token, fetches the auth-token key
  and signs the bytes that precede the hmac field with whatever the key service returned.
  Its only caller passes the address of a local buffer, so the pointer it tests is not NULL.
\<close>

definition MintAuthToken ::
  "GateKeeper \<Rightarrow> 32 word \<Rightarrow> secure_id_t \<Rightarrow> secure_id_t \<Rightarrow> AuthToken" where
  "MintAuthToken gk ts uid aid =
     (let key = GetAuthTokenKey gk;
          hashed = to_bytes 8 uid @ to_bytes 8 aid @ to_bytes 4 ts
      in \<lparr> root_secure_user_id = uid, auxiliary_secure_user_id = aid, timestamp = ts,
           hmac = ComputeSignature gk key hashed \<rparr>)"

text \<open>The assignment \<^verbatim>\<open>response->error = ERROR_INVALID\<close>.\<close>

definition invalid :: "'a GateKeeperMessage_scheme \<Rightarrow> 'a GateKeeperMessage_scheme" where
  "invalid response = response\<lparr>error := ERROR_INVALID\<rparr>"

text \<open>
  \<^verbatim>\<open>Verify\<close>. The response pointer may be NULL (\<open>None\<close>). The clock's seconds are
  cast to \<^verbatim>\<open>uint32_t\<close>, stored in a \<^verbatim>\<open>uint64_t\<close> and passed on as \<^verbatim>\<open>uint32_t\<close>.
\<close>

definition Verify ::
  "GateKeeper \<Rightarrow> VerifyRequest \<Rightarrow> VerifyResponse option \<Rightarrow> VerifyResponse option exec" where
  "Verify gk request response =
     (case response of
        None \<Rightarrow> Returns None
      | Some resp \<Rightarrow>
          (case provided_password request of
             None \<Rightarrow> Returns (Some (invalid resp))
           | Some pw \<Rightarrow>
               (case password_handle request of
                  None \<Rightarrow> Returns (Some (invalid resp))
                | Some hb \<Rightarrow>
                    if length hb < 1 then OutOfBounds
                    else if version (handle_at hb) \<noteq> HANDLE_VERSION
                      then Returns (Some (invalid resp))
                    else
                      (let valid = ValidatePasswordFile gk (request_user_id request) (Some hb) in
                       if valid \<and> length hb < 1 + 8 + 8 then OutOfBounds
                       else
                         (let uid = (if valid then user_id (handle_at hb) else 0);
                              aid = (if valid then authenticator_id (handle_at hb) else 0);
                              ts = (ucast (word_of_int (monotonic_sec gk) :: 32 word) :: 64 word)
                          in case DoVerify gk hb (Some pw) of
                               OutOfBounds \<Rightarrow> OutOfBounds
                             | Returns ok \<Rightarrow>
                                 if ok
                                 then Returns (Some (SetVerificationToken resp
                                        (MintAuthToken gk (ucast ts) uid aid)))
                                 else Returns (Some (invalid resp)))))))"

text \<open>
  The identity step of \<^verbatim>\<open>Enroll\<close> (the branch on the prior handle): \<open>Returns None\<close>
  is a rejected enrollment, \<open>Returns (Some (uid, gk'))\<close> the secure id to enroll under and
  the state after the random draw, if any.
\<close>

definition Enroll_user_id ::
  "GateKeeper \<Rightarrow> EnrollRequest \<Rightarrow> (secure_id_t \<times> GateKeeper) option exec" where
  "Enroll_user_id gk request =
     (case password_handle request of
        None \<Rightarrow>
          (let (r, gk1) = GetRandom gk 8 in Returns (Some (from_bytes r, gk1)))
      | Some hb \<Rightarrow>
          if \<not> ValidatePasswordFile gk (request_user_id request) (Some hb)
          then Returns None
          else
            (case DoVerify gk hb (enrolled_password request) of
               OutOfBounds \<Rightarrow> OutOfBounds
             | Returns ok \<Rightarrow>
                 if \<not> ok then Returns None
                 else Returns (Some (user_id (handle_at hb), gk))))"

definition Enroll ::
  "GateKeeper \<Rightarrow> EnrollRequest \<Rightarrow> EnrollResponse option
     \<Rightarrow> (EnrollResponse option \<times> GateKeeper) exec" where
  "Enroll gk request response =
     (case response of
        None \<Rightarrow> Returns (None, gk)
      | Some resp \<Rightarrow>
          (case provided_password request of
             None \<Rightarrow> Returns (Some (invalid resp), gk)
           | Some new_password \<Rightarrow>
               (case Enroll_user_id gk request of
                  OutOfBounds \<Rightarrow> OutOfBounds
                | Returns None \<Rightarrow> Returns (Some (invalid resp), gk)
                | Returns (Some (uid, gk1)) \<Rightarrow>
                    (let (sb, gk2) = GetRandom gk1 8;
                         (ab, gk3) = GetRandom gk2 8
                     in case CreatePasswordHandle gk3 (from_bytes sb) uid (from_bytes ab)
                               new_password of
                          None \<Rightarrow> Returns (Some (invalid resp), gk3)
                        | Some ph \<Rightarrow>
                            Returns (Some (SetEnrolledPasswordHandle resp ph),
                                     WritePasswordFile gk3 (request_user_id request) ph)))))"

section \<open>Example platforms and inputs\<close>

text \<open>
  Concrete collaborators on which the theorems below are exercised. \<open>toy_signature\<close> is
  a checksum that depends on key, message and salt; the platform \<open>weak_gk\<close> has a password
  signature that depends on the key alone. Both are deterministic, which is all the
  collaborator contract asks of a signature primitive.
\<close>

definition toy_signature :: "u8 list \<Rightarrow> u8 list \<Rightarrow> salt_t \<Rightarrow> signature_t" where
  "toy_signature key msg slt = of_nat (sum_list (map unat (key @ msg))) + ucast slt"

definition example_gk :: GateKeeper where
  "example_gk =
     \<lparr> password_files = (\<lambda>uid. None), file_writes = [],
       random_tape = (\<lambda>i. of_nat i + 1), random_pos = 0,
       password_key = Some [1], auth_token_key = Some [2], monotonic_sec = 100,
       ComputePasswordSignature = toy_signature,
       ComputeSignature =
         (\<lambda>key msg. of_nat (sum_list (map unat
            (case key of None \<Rightarrow> msg | Some k \<Rightarrow> k @ msg)))) \<rparr>"

definition weak_gk :: GateKeeper where
  "weak_gk = example_gk\<lparr>ComputePasswordSignature := (\<lambda>key msg slt. from_bytes key)\<rparr>"


definition weak_handle :: "u8 list" where
  "weak_handle =
     [0, 5, 0, 0, 0, 0, 0, 0, 0, 9, 0, 0, 0, 0, 0, 0, 0, 7, 0, 0, 0, 0, 0, 0,
      0, 1, 0, 0, 0, 0, 0, 0, 0, 0, 0, 0, 0, 0, 0, 0, 0, 0, 0, 0, 0, 0, 0, 0,
      0, 0, 0, 0, 0, 0, 0, 0, 0]"

definition example_handle :: "u8 list" where
  "example_handle =
     [0, 5, 0, 0, 0, 0, 0, 0, 0, 9, 0, 0, 0, 0, 0, 0, 0, 7, 0, 0, 0, 0, 0, 0,
      0, 28, 0, 0, 0, 0, 0, 0, 0, 0, 0, 0, 0, 0, 0, 0, 0, 0, 0, 0, 0, 0, 0, 0,
      0, 0, 0, 0, 0, 0, 0, 0, 0]"


definition enrolled_gk :: GateKeeper where
  "enrolled_gk =
     example_gk\<lparr>password_files := (\<lambda>uid. if uid = 0 then Some example_handle else None)\<rparr>"

definition keyless_gk :: GateKeeper where
  "keyless_gk = example_gk\<lparr>auth_token_key := None\<rparr>"

definition verify_request :: "u8 list \<Rightarrow> u8 list \<Rightarrow> VerifyRequest" where
  "verify_request hb pw =
     \<lparr> request_user_id = 0, password_handle = Some hb, provided_password = Some pw \<rparr>"

definition reenroll_request :: "u8 list \<Rightarrow> u8 list \<Rightarrow> u8 list \<Rightarrow> EnrollRequest" where
  "reenroll_request hb old_pw new_pw =
     \<lparr> request_user_id = 0, password_handle = Some hb, provided_password = Some new_pw,
       enrolled_password = Some old_pw \<rparr>"

definition fresh_verify_response :: VerifyResponse where
  "fresh_verify_response = \<lparr> error = ERROR_NONE, verification_token = None \<rparr>"

definition fresh_enroll_response :: EnrollResponse where
  "fresh_enroll_response = \<lparr> error = ERROR_NONE, enrolled_password_handle = None \<rparr>"



definition stale_gk :: GateKeeper where
  "stale_gk = example_gk\<lparr>password_files := (\<lambda>uid. Some (example_handle[0 := 1]))\<rparr>"

definition short_gk :: GateKeeper where
  "short_gk = example_gk\<lparr>password_files := (\<lambda>uid. Some [1])\<rparr>"

section \<open>Facts about bytes and the handle layout\<close>

lemma length_to_bytes [simp]: "length (to_bytes n w) = n"
  by (simp add: to_bytes_def)

lemma nth_to_bytes: "i < n \<Longrightarrow> to_bytes n w ! i = ucast (drop_bit (8 * i) w)"
  by (simp add: to_bytes_def)

lemma bit_from_bytes:
  "bit (from_bytes bs :: 'a::len word) n \<longleftrightarrow>
     n < LENGTH('a) \<and> n div 8 < length bs \<and> bit (bs ! (n div 8)) (n mod 8)"
proof (induction bs arbitrary: n)
  case Nil
  show ?case by simp
next
  case (Cons b bs)
  show ?case
  proof (cases "n < 8")
    case True
    then show ?thesis by (auto simp: bit_simps Cons dest: bit_imp_le_length)
  next
    case False
    then obtain m where m: "n = m + 8" by (metis le_add_diff_inverse2 not_less)
    have d: "(m + 8) div 8 = Suc (m div 8)" by simp
    from m show ?thesis by (auto simp: bit_simps Cons d dest: bit_imp_le_length)
  qed
qed

lemma from_bytes_to_bytes:
  "LENGTH('a) \<le> 8 * n \<Longrightarrow> (from_bytes (to_bytes n w) :: 'a::len word) = w"
  by (rule bit_eqI) (auto simp: bit_simps bit_from_bytes nth_to_bytes dest: bit_imp_le_length)

lemma to_bytes_from_bytes:
  assumes "8 * length bs \<le> LENGTH('a)"
  shows "to_bytes (length bs) (from_bytes bs :: 'a::len word) = bs"
proof (rule nth_equalityI)
  show "length (to_bytes (length bs) (from_bytes bs :: 'a word)) = length bs" by simp
next
  fix i assume "i < length (to_bytes (length bs) (from_bytes bs :: 'a word))"
  then have i: "i < length bs" by simp
  show "to_bytes (length bs) (from_bytes bs :: 'a word) ! i = bs ! i"
    using i assms
    by (simp add: nth_to_bytes, intro bit_eqI)
       (auto simp: bit_simps bit_from_bytes dest: bit_imp_le_length)
qed

lemma length_handle_bytes [simp]: "length (handle_bytes h) = sizeof_password_handle_t"
  by (simp add: handle_bytes_def sizeof_password_handle_t_def)

lemma handle_at_handle_bytes: "handle_at (handle_bytes h @ rest) = h"
  by (simp add: handle_at_def handle_bytes_def from_bytes_to_bytes)

lemma take_split_handle:
  "take 57 buf = take 1 buf @ take 8 (drop 1 buf) @ take 8 (drop 9 buf)
      @ take 8 (drop 17 buf) @ take 32 (drop 25 buf)"
  using take_add [of 1 56 buf] take_add [of 8 48 "drop 1 buf"]
    take_add [of 8 40 "drop 9 buf"] take_add [of 8 32 "drop 17 buf"]
  by simp

lemma to_bytes_field:
  assumes "k + n \<le> length buf" and "8 * n \<le> LENGTH('a)"
  shows "to_bytes n (from_bytes (take n (drop k buf)) :: 'a::len word) = take n (drop k buf)"
  using to_bytes_from_bytes [of "take n (drop k buf)", where 'a = 'a] assms by simp

lemma handle_bytes_handle_at:
  assumes "sizeof_password_handle_t \<le> length buf"
  shows "handle_bytes (handle_at buf) = take sizeof_password_handle_t buf"
proof -
  from assms have len: "57 \<le> length buf" by (simp add: sizeof_password_handle_t_def)
  then have v: "[buf ! 0] = take 1 buf"
    by (cases buf) simp_all
  from len show ?thesis
    by (simp add: handle_bytes_def handle_at_def sizeof_password_handle_t_def
        to_bytes_field v take_split_handle [of buf])
qed

lemma handle_bytes_inj: "handle_bytes h = handle_bytes h' \<longleftrightarrow> h = h'"
proof
  assume "handle_bytes h = handle_bytes h'"
  then have "handle_at (handle_bytes h @ []) = handle_at (handle_bytes h' @ [])"
    by simp
  then show "h = h'"
    by (simp only: handle_at_handle_bytes)
qed simp

section \<open>Facts about the operations\<close>

lemma to_sign_eq:
  "to_sign h pw = [version h] @ to_bytes 8 (user_id h) @ to_bytes 8 (authenticator_id h) @ pw"
  by (simp add: to_sign_def metadata_length_def handle_bytes_def)

lemma to_sign_handle_at:
  assumes "sizeof_password_handle_t \<le> length buf"
  shows "to_sign (handle_at buf) pw = take metadata_length buf @ pw"
  using assms
  by (simp add: to_sign_def handle_bytes_handle_at metadata_length_def
      sizeof_password_handle_t_def min_def)

lemma CreatePasswordHandle_key:
  assumes "password_key gk = Some key" and "key \<noteq> []"
  shows "CreatePasswordHandle gk slt uid aid pw =
     Some (handle_bytes \<lparr> version = HANDLE_VERSION, user_id = uid, authenticator_id = aid,
       salt = slt,
       signature = ComputePasswordSignature gk key
         (to_sign \<lparr> version = HANDLE_VERSION, user_id = uid, authenticator_id = aid,
             salt = slt, signature = 0 \<rparr> pw) slt \<rparr>)"
  using assms by (simp add: CreatePasswordHandle_def GetPasswordKey_def)

lemma CreatePasswordHandle_no_key:
  assumes "password_key gk = None \<or> password_key gk = Some []"
  shows "CreatePasswordHandle gk slt uid aid pw = None"
  using assms by (auto simp: CreatePasswordHandle_def GetPasswordKey_def)

lemma CreatePasswordHandle_SomeD:
  assumes "CreatePasswordHandle gk slt uid aid pw = Some h"
  obtains key where "password_key gk = Some key" and "key \<noteq> []"
  using assms
  by (auto simp: CreatePasswordHandle_def GetPasswordKey_def Let_def
      split: option.splits if_splits)

lemma memcmp_s_eq: "memcmp_s p1 p2 n = 0 \<longleftrightarrow> take n p1 = take n p2"
  by (simp add: memcmp_s_def)

lemma DoVerify_key:
  assumes len: "sizeof_password_handle_t \<le> length hb"
    and key: "password_key gk = Some key" "key \<noteq> []"
  shows "DoVerify gk hb (Some pw) =
     Returns (hb ! 0 = HANDLE_VERSION \<and>
       signature (handle_at hb) =
         ComputePasswordSignature gk key (take metadata_length hb @ pw) (salt (handle_at hb)))"
proof -
  let ?e = "handle_at hb"
  let ?m = "to_sign \<lparr> version = HANDLE_VERSION, user_id = user_id ?e,
      authenticator_id = authenticator_id ?e, salt = salt ?e, signature = 0 \<rparr> pw"
  let ?p = "\<lparr> version = HANDLE_VERSION, user_id = user_id ?e,
      authenticator_id = authenticator_id ?e, salt = salt ?e,
      signature = ComputePasswordSignature gk key ?m (salt ?e) \<rparr>"
  have v: "version ?e = hb ! 0" by (simp add: handle_at_def)
  have m: "hb ! 0 = HANDLE_VERSION \<Longrightarrow> ?m = take metadata_length hb @ pw"
    using to_sign_handle_at [OF len, of pw] v by (simp add: to_sign_eq)
  have l25: "\<not> length hb < 1 + 8 + 8 + 8"
    using len by (simp add: sizeof_password_handle_t_def)
  have "DoVerify gk hb (Some pw) = Returns (handle_bytes ?p = handle_bytes ?e)"
    using len key l25
    by (simp add: DoVerify_def CreatePasswordHandle_key memcmp_s_eq handle_bytes_handle_at
        Let_def)
  also have "handle_bytes ?p = handle_bytes ?e \<longleftrightarrow> ?p = ?e"
    by (rule handle_bytes_inj)
  also have "?p = ?e \<longleftrightarrow> hb ! 0 = HANDLE_VERSION \<and>
       signature ?e = ComputePasswordSignature gk key (take metadata_length hb @ pw) (salt ?e)"
    using m v by (cases ?e) auto
  finally show ?thesis .
qed

lemma DoVerify_no_key:
  assumes "1 + 8 + 8 + 8 \<le> length hb" and "password_key gk = None \<or> password_key gk = Some []"
  shows "DoVerify gk hb pw = Returns False"
  using assms by (cases pw) (auto simp: DoVerify_def CreatePasswordHandle_no_key)

lemma DoVerify_TrueD:
  assumes "DoVerify gk hb pw = Returns True"
  shows "sizeof_password_handle_t \<le> length hb \<and> hb ! 0 = HANDLE_VERSION"
proof -
  from assms obtain p where pw: "pw = Some p" by (cases pw) (auto simp: DoVerify_def)
  from assms pw have len: "sizeof_password_handle_t \<le> length hb"
    by (auto simp: DoVerify_def Let_def split: if_splits option.splits)
  from assms pw obtain key where k: "password_key gk = Some key" "key \<noteq> []"
    by (auto simp: DoVerify_def Let_def split: if_splits option.splits
        elim: CreatePasswordHandle_SomeD)
  from DoVerify_key [OF len k, of p] assms pw show ?thesis using len by simp
qed

lemma flip_bit_neq: "j < 8 \<Longrightarrow> flip_bit j (x :: u8) \<noteq> x"
proof
  assume j: "j < 8" and eq: "flip_bit j x = x"
  have "bit (flip_bit j x) j \<longleftrightarrow> \<not> bit x j"
    using j by (simp add: bit_flip_bit_iff)
  with eq show False by simp
qed

lemma CreatePasswordHandle_valid:
  assumes c: "CreatePasswordHandle gk slt uid aid pw = Some h"
    and key: "password_key gk = Some key"
  shows "length h = sizeof_password_handle_t"
    and "h ! 0 = HANDLE_VERSION"
    and "user_id (handle_at h) = uid"
    and "authenticator_id (handle_at h) = aid"
    and "salt (handle_at h) = slt"
    and "signature (handle_at h) =
           ComputePasswordSignature gk key (take metadata_length h @ pw) slt"
    and "take metadata_length h = [HANDLE_VERSION] @ to_bytes 8 uid @ to_bytes 8 aid"
    and "key \<noteq> []"
proof -
  from c key show k: "key \<noteq> []"
    by (auto elim: CreatePasswordHandle_SomeD)
  let ?r = "\<lparr> version = HANDLE_VERSION, user_id = uid, authenticator_id = aid,
       salt = slt,
       signature = ComputePasswordSignature gk key
         (to_sign \<lparr> version = HANDLE_VERSION, user_id = uid, authenticator_id = aid,
             salt = slt, signature = 0 \<rparr> pw) slt \<rparr>"
  from c key k have h: "h = handle_bytes ?r"
    by (simp add: CreatePasswordHandle_key)
  then show len: "length h = sizeof_password_handle_t" by simp
  from h have at: "handle_at h = ?r"
    using handle_at_handle_bytes [of ?r "[]"] by simp
  from h show "h ! 0 = HANDLE_VERSION" by (simp add: handle_bytes_def)
  from at show "user_id (handle_at h) = uid" "authenticator_id (handle_at h) = aid"
    "salt (handle_at h) = slt" by simp_all
  from h show t: "take metadata_length h = [HANDLE_VERSION] @ to_bytes 8 uid @ to_bytes 8 aid"
    by (simp add: handle_bytes_def metadata_length_def)
  from at t show "signature (handle_at h) =
           ComputePasswordSignature gk key (take metadata_length h @ pw) slt"
    by (simp add: to_sign_eq)
qed

lemma DoVerify_created:
  assumes "CreatePasswordHandle gk slt uid aid pw = Some h"
  shows "DoVerify gk h (Some pw) = Returns True"
proof -
  from assms obtain key where k: "password_key gk = Some key"
    by (auto elim: CreatePasswordHandle_SomeD)
  note v = CreatePasswordHandle_valid [OF assms k]
  have len: "sizeof_password_handle_t \<le> length h" using v(1) by simp
  show ?thesis using v by (simp add: DoVerify_key [OF len k v(8)])
qed

lemma tampered_handle:
  assumes c: "CreatePasswordHandle gk slt uid aid pw = Some h"
    and key: "password_key gk = Some key"
    and j: "j < 8" and i: "i < sizeof_password_handle_t"
    and h': "h' = h[i := flip_bit j (h ! i)]"
  shows "sizeof_password_handle_t \<le> length h'"
    and "handle_at h' \<noteq> handle_at h"
proof -
  note v = CreatePasswordHandle_valid [OF c key]
  show len: "sizeof_password_handle_t \<le> length h'" using v(1) h' by simp
  have "h' ! i \<noteq> h ! i"
    using i j v(1) h' by (simp add: flip_bit_neq)
  then have "h' \<noteq> h" by auto
  moreover have "handle_bytes (handle_at h') = h'" "handle_bytes (handle_at h) = h"
    using len v(1) h' by (simp_all add: handle_bytes_handle_at)
  ultimately show "handle_at h' \<noteq> handle_at h" by auto
qed

lemma ValidatePasswordFile_iff:
  "ValidatePasswordFile gk uid (Some hb) \<longleftrightarrow> hb \<noteq> [] \<and> password_files gk uid = Some hb"
  by (auto simp: ValidatePasswordFile_def ReadPasswordFile_def memcmp_s_def
      split: option.splits)

lemma version_handle_at [simp]: "version (handle_at hb) = hb ! 0"
  by (simp add: handle_at_def)

lemma MintAuthToken_fields [simp]:
  "root_secure_user_id (MintAuthToken gk ts uid aid) = uid"
  "auxiliary_secure_user_id (MintAuthToken gk ts uid aid) = aid"
  "timestamp (MintAuthToken gk ts uid aid) = ts"
  "hmac (MintAuthToken gk ts uid aid) =
     ComputeSignature gk (auth_token_key gk) (to_bytes 8 uid @ to_bytes 8 aid @ to_bytes 4 ts)"
  by (simp_all add: MintAuthToken_def GetAuthTokenKey_def)

lemma timestamp_cast:
  "(ucast (ucast (w :: 32 word) :: 64 word) :: 32 word) = w"
  by (rule bit_eqI) (auto simp: bit_simps dest: bit_imp_le_length)

lemma GetRandom_fields [simp]:
  "password_key (snd (GetRandom gk n)) = password_key gk"
  "password_files (snd (GetRandom gk n)) = password_files gk"
  "file_writes (snd (GetRandom gk n)) = file_writes gk"
  "ComputePasswordSignature (snd (GetRandom gk n)) = ComputePasswordSignature gk"
  by (simp_all add: GetRandom_def)

lemma Enroll_user_id_SomeD:
  assumes "Enroll_user_id gk request = Returns (Some (uid, gk1))"
  shows "password_files gk1 = password_files gk \<and> file_writes gk1 = file_writes gk \<and>
         password_key gk1 = password_key gk \<and>
         ComputePasswordSignature gk1 = ComputePasswordSignature gk \<and>
         (case password_handle request of
            None \<Rightarrow> uid = from_bytes (fst (GetRandom gk 8)) \<and> gk1 = snd (GetRandom gk 8)
          | Some hb \<Rightarrow>
              ValidatePasswordFile gk (request_user_id request) (Some hb) \<and>
              DoVerify gk hb (enrolled_password request) = Returns True \<and>
              uid = user_id (handle_at hb) \<and> gk1 = gk)"
  using assms
  by (auto simp: Enroll_user_id_def split_beta split: option.splits if_splits exec.splits)

lemma DoVerify_other_password:
  assumes "CreatePasswordHandle gk slt uid aid pw = Some h"
    and "password_key gk = Some key"
  shows "DoVerify gk h (Some pw') =
       Returns (ComputePasswordSignature gk key (take metadata_length h @ pw') slt =
                ComputePasswordSignature gk key (take metadata_length h @ pw) slt)"
proof -
  note v = CreatePasswordHandle_valid [OF assms]
  have len: "sizeof_password_handle_t \<le> length h" using v(1) by simp
  show ?thesis
    using v by (auto simp: DoVerify_key [OF len assms(2) v(8)])
qed

text \<open>
  A signature has 32 bytes and a password any length, so every password signature,
  whatever it computes, gives two different passwords the same signature: the handle made
  for one of them verifies with the other.
\<close>

lemma signature_collision:
  assumes key: "password_key gk = Some key" "key \<noteq> []"
  shows "\<exists>pw pw' h. pw \<noteq> pw' \<and> CreatePasswordHandle gk slt uid aid pw = Some h \<and>
           DoVerify gk h (Some pw') = Returns True"
proof -
  let ?pre = "[HANDLE_VERSION] @ to_bytes 8 uid @ to_bytes 8 aid"
  let ?f = "\<lambda>pw. ComputePasswordSignature gk key (?pre @ pw) slt"
  have "\<not> inj ?f"
  proof
    assume "inj ?f"
    moreover have "finite (range ?f)" by (rule finite_subset [OF subset_UNIV]) simp
    ultimately have "finite (UNIV :: u8 list set)" by (rule finite_imageD [rotated])
    then show False by (simp add: infinite_UNIV_listI)
  qed
  then obtain pw pw' where ne: "pw \<noteq> pw'" and eq: "?f pw = ?f pw'"
    by (auto simp: inj_on_def)
  obtain h where c: "CreatePasswordHandle gk slt uid aid pw = Some h"
    using key by (simp add: CreatePasswordHandle_key)
  note v = CreatePasswordHandle_valid [OF c key(1)]
  have "DoVerify gk h (Some pw') = Returns True"
    using eq v(7) by (simp add: DoVerify_other_password [OF c key(1)])
  with ne c show ?thesis by blast
qed

lemma DoVerify_whole_struct:
  assumes len: "sizeof_password_handle_t \<le> length hb"
    and key: "password_key gk = Some key" "key \<noteq> []"
  shows "DoVerify gk hb (Some pw) =
     Returns (CreatePasswordHandle gk (salt (handle_at hb)) (user_id (handle_at hb))
                (authenticator_id (handle_at hb)) pw
              = Some (take sizeof_password_handle_t hb))"
proof -
  have l25: "\<not> length hb < 1 + 8 + 8 + 8"
    using len by (simp add: sizeof_password_handle_t_def)
  show ?thesis
    using len key l25
    by (simp add: DoVerify_def CreatePasswordHandle_key memcmp_s_eq Let_def)
qed

lemma handle_at_append:
  assumes "length h = sizeof_password_handle_t"
  shows "handle_at (h @ rest) = handle_at h"
proof -
  have "handle_bytes (handle_at h) = h"
    using assms by (simp add: handle_bytes_handle_at)
  then show ?thesis
    using handle_at_handle_bytes [of "handle_at h" rest] by simp
qed

lemma DoVerify_appended:
  assumes c: "CreatePasswordHandle gk slt uid aid pw = Some h"
  shows "DoVerify gk (h @ rest) (Some pw) = Returns True"
proof -
  from c obtain key where k: "password_key gk = Some key"
    by (auto elim: CreatePasswordHandle_SomeD)
  note v = CreatePasswordHandle_valid [OF c k]
  have len: "sizeof_password_handle_t \<le> length (h @ rest)" using v(1) by simp
  have lh: "length h = 57" using v(1) by (simp add: sizeof_password_handle_t_def)
  have t: "take metadata_length (h @ rest) = take metadata_length h"
    using lh by (simp add: metadata_length_def)
  have n0: "(h @ rest) ! 0 = h ! 0"
    using lh by (simp add: nth_append)
  have a: "handle_at (h @ rest) = handle_at h"
    using v(1) by (rule handle_at_append)
  have "DoVerify gk (h @ rest) (Some pw) =
     Returns (h ! 0 = HANDLE_VERSION \<and>
       signature (handle_at h) =
         ComputePasswordSignature gk key (take metadata_length h @ pw) (salt (handle_at h)))"
    unfolding DoVerify_key [OF len k v(8)] t n0 a ..
  then show ?thesis
    using v(2,5,6) by simp
qed

lemma Verify_token:
  assumes "provided_password request = Some pw" and "password_handle request = Some hb"
    and "DoVerify gk hb (Some pw) = Returns True"
  shows "Verify gk request (Some resp) =
     Returns (Some (SetVerificationToken resp
       (MintAuthToken gk (word_of_int (monotonic_sec gk))
          (if ValidatePasswordFile gk (request_user_id request) (Some hb)
           then user_id (handle_at hb) else 0)
          (if ValidatePasswordFile gk (request_user_id request) (Some hb)
           then authenticator_id (handle_at hb) else 0))))"
proof -
  from DoVerify_TrueD [OF assms(3)]
  have len: "sizeof_password_handle_t \<le> length hb" and v: "hb ! 0 = HANDLE_VERSION"
    by simp_all
  from len have l: "hb \<noteq> []" "\<not> length hb < 1 + 8 + 8"
    by (auto simp: sizeof_password_handle_t_def)
  show ?thesis
    using assms l v by (simp add: Verify_def Let_def timestamp_cast)
qed

section \<open>The examples evaluated\<close>

lemmas eval_defs = CreatePasswordHandle_def GetPasswordKey_def handle_bytes_def to_bytes_def
  upt_rec HANDLE_VERSION_def to_sign_def metadata_length_def toy_signature_def
  DoVerify_def handle_at_def memcmp_s_def sizeof_password_handle_t_def

lemma example_gk_simps:
  "password_key example_gk = Some [1]"
  "ComputePasswordSignature example_gk = toy_signature"
  "password_files example_gk = (\<lambda>uid. None)"
  "auth_token_key example_gk = Some [2]"
  "random_pos example_gk = 0"
  "file_writes example_gk = []"
  by (simp_all add: example_gk_def)

lemma weak_gk_simps:
  "password_key weak_gk = Some [1]"
  "ComputePasswordSignature weak_gk = (\<lambda>key msg slt. from_bytes key)"
  "password_files weak_gk = (\<lambda>uid. None)"
  "auth_token_key weak_gk = Some [2]"
  by (simp_all add: weak_gk_def example_gk_def)

lemma example_handle_created:
  "CreatePasswordHandle example_gk 7 5 9 [1, 2, 3] = Some example_handle"
  by (simp add: eval_defs example_gk_simps example_handle_def)

lemma weak_handle_created:
  "CreatePasswordHandle weak_gk 7 5 9 [1, 2, 3] = Some weak_handle"
  by (simp add: eval_defs weak_gk_simps weak_handle_def)

lemma example_handle_verifies:
  "DoVerify example_gk example_handle (Some [1, 2, 3]) = Returns True"
  by (rule DoVerify_created [OF example_handle_created])


lemma example_request_simps:
  "provided_password (verify_request hb pw) = Some pw"
  "password_handle (verify_request hb pw) = Some hb"
  "request_user_id (verify_request hb pw) = 0"
  "provided_password (reenroll_request hb old_pw new_pw) = Some new_pw"
  "password_handle (reenroll_request hb old_pw new_pw) = Some hb"
  "enrolled_password (reenroll_request hb old_pw new_pw) = Some old_pw"
  "request_user_id (reenroll_request hb old_pw new_pw) = 0"
  by (simp_all add: verify_request_def reenroll_request_def)

lemma example_gk_more:
  "monotonic_sec example_gk = 100"
  "monotonic_sec keyless_gk = 100"
  "password_key keyless_gk = Some [1]"
  "auth_token_key keyless_gk = None"
  "password_files keyless_gk = (\<lambda>uid. None)"
  "ComputePasswordSignature keyless_gk = toy_signature"
  "ComputeSignature keyless_gk =
     (\<lambda>key msg. of_nat (sum_list (map unat
        (case key of None \<Rightarrow> msg | Some k \<Rightarrow> k @ msg))))"
  "password_key enrolled_gk = Some [1]"
  "ComputePasswordSignature enrolled_gk = toy_signature"
  "password_files enrolled_gk = (\<lambda>uid. if uid = 0 then Some example_handle else None)"
  "file_writes enrolled_gk = []"
  "random_pos enrolled_gk = 0"
  "random_tape enrolled_gk = (\<lambda>i. of_nat i + 1)"
  by (simp_all add: example_gk_def keyless_gk_def enrolled_gk_def)

lemma example_handle_simps:
  "example_handle \<noteq> []" "example_handle ! 0 = 0" "length example_handle = 57"
  by (simp_all add: example_handle_def)

lemma keyless_handle_verifies:
  "DoVerify keyless_gk example_handle (Some [1, 2, 3]) = Returns True"
proof -
  have "CreatePasswordHandle keyless_gk 7 5 9 [1, 2, 3] = Some example_handle"
    by (simp add: eval_defs example_gk_more example_handle_def)
  then show ?thesis by (rule DoVerify_created)
qed


lemma enroll_wrong_old_password:
  "Enroll enrolled_gk (reenroll_request example_handle [1, 2, 4] [7, 7])
       (Some fresh_enroll_response)
     = Returns (Some (invalid fresh_enroll_response), enrolled_gk)"
proof -
  have d: "DoVerify enrolled_gk example_handle (Some [1, 2, 4]) = Returns False"
    by (simp add: eval_defs example_gk_more example_handle_def)
  show ?thesis
    by (simp add: Enroll_def Enroll_user_id_def example_request_simps
        ValidatePasswordFile_iff example_gk_more example_handle_simps d)
qed

section \<open>Signed bytes and verification by recomputation\<close>

text \<open>
  Claim C8. In every call of \<^verbatim>\<open>CreatePasswordHandle\<close> the message handed to the signature
  primitive is the version byte, the bytes of the secure id, the bytes of the authenticator
  id and the password bytes, in this order. Salt and signature are not part of it: the
  signed bytes are the same whatever the two fields hold, and the salt reaches the
  primitive as its salt argument only.
\<close>

theorem CreatePasswordHandle_signed_bytes:
  "to_sign \<lparr> version = HANDLE_VERSION, user_id = uid, authenticator_id = aid,
       salt = slt, signature = sg \<rparr> pw
     = [HANDLE_VERSION] @ to_bytes 8 uid @ to_bytes 8 aid @ pw
   \<and> CreatePasswordHandle gk slt uid aid pw =
      (case GetPasswordKey gk of
         None \<Rightarrow> None
       | Some key \<Rightarrow>
           if length key = 0 then None
           else Some (handle_bytes
             \<lparr> version = HANDLE_VERSION, user_id = uid, authenticator_id = aid, salt = slt,
               signature = ComputePasswordSignature gk key
                 ([HANDLE_VERSION] @ to_bytes 8 uid @ to_bytes 8 aid @ pw) slt \<rparr>))"
  by (simp add: to_sign_eq CreatePasswordHandle_def split: option.split)

theorem CreatePasswordHandle_signed_bytes_witness:
  "CreatePasswordHandle example_gk 7 5 9 [1, 2, 3] =
     Some (handle_bytes
       \<lparr> version = HANDLE_VERSION, user_id = 5, authenticator_id = 9, salt = 7,
         signature = toy_signature [1]
           ([HANDLE_VERSION] @ to_bytes 8 (5 :: secure_id_t) @ to_bytes 8 (9 :: secure_id_t)
              @ [1, 2, 3]) 7 \<rparr>)"
  using CreatePasswordHandle_signed_bytes [of 5 9 7 0 "[1, 2, 3]" example_gk]
  by (simp add: GetPasswordKey_def example_gk_simps)

text \<open>
  Claim C3, as amended. The handle that \<^verbatim>\<open>CreatePasswordHandle\<close> produces for a password
  verifies under \<^verbatim>\<open>DoVerify\<close> with that password. With another password \<^verbatim>\<open>DoVerify\<close>
  returns false exactly when the signature primitive gives the two signed regions (same
  key, same salt) different signatures; that it fails for every other password does not
  follow from the primitive being deterministic.
\<close>

theorem verification_soundness:
  assumes "CreatePasswordHandle gk slt uid aid pw = Some h"
    and "password_key gk = Some key"
  shows "DoVerify gk h (Some pw) = Returns True \<and>
     DoVerify gk h (Some pw') =
       Returns (ComputePasswordSignature gk key (take metadata_length h @ pw') slt =
                ComputePasswordSignature gk key (take metadata_length h @ pw) slt)"
  using DoVerify_created [OF assms(1)] DoVerify_other_password [OF assms] by simp

theorem verification_soundness_witness:
  "CreatePasswordHandle example_gk 7 5 9 [1, 2, 3] = Some example_handle \<and>
   password_key example_gk = Some [1] \<and>
   DoVerify example_gk example_handle (Some [1, 2, 3]) = Returns True \<and>
   DoVerify example_gk example_handle (Some [4]) = Returns False"
  using verification_soundness [OF example_handle_created example_gk_simps(1), of "[4]"]
  by (simp add: example_handle_created example_gk_simps example_handle_def
      metadata_length_def toy_signature_def)

text \<open>
  On the platform whose password signature depends on the key alone, the handle made for
  the password 1, 2, 3 verifies with the password 4.
\<close>

theorem wrong_password_accepted:
  "CreatePasswordHandle weak_gk 7 5 9 [1, 2, 3] = Some weak_handle \<and>
   DoVerify weak_gk weak_handle (Some [4]) = Returns True"
  by (simp add: eval_defs weak_gk_simps weak_handle_def)

text \<open>
  Claim C2, as amended. Take a handle produced by \<^verbatim>\<open>CreatePasswordHandle\<close> and flip one
  bit of byte \<open>i\<close>. If the byte lies in the version field (offset 0) or in the signature
  field (offsets 25 to 56), \<^verbatim>\<open>DoVerify\<close> with the original password returns false. If it
  lies in the secure id or the authenticator id (offsets 1 to 16), \<^verbatim>\<open>DoVerify\<close> returns
  false exactly when the signature of the changed signed region differs from the signature
  of the original one.
\<close>

theorem tamper_sensitivity:
  assumes c: "CreatePasswordHandle gk slt uid aid pw = Some h"
    and key: "password_key gk = Some key"
    and j: "j < 8"
    and h': "h' = h[i := flip_bit j (h ! i)]"
  shows "(i = 0 \<or> (25 \<le> i \<and> i < 57) \<longrightarrow> DoVerify gk h' (Some pw) = Returns False) \<and>
         (1 \<le> i \<and> i < 17 \<longrightarrow>
            DoVerify gk h' (Some pw) =
              Returns (ComputePasswordSignature gk key (take metadata_length h' @ pw) slt =
                       ComputePasswordSignature gk key (take metadata_length h @ pw) slt))"
proof -
  note v = CreatePasswordHandle_valid [OF c key]
  have lh: "length h = 57" using v(1) by (simp add: sizeof_password_handle_t_def)
  have len: "sizeof_password_handle_t \<le> length h'" using v(1) h' by simp
  note dv = DoVerify_key [OF len key v(8), of pw]
  have version: "DoVerify gk h' (Some pw) = Returns False" if "i = 0"
  proof -
    have "h' ! 0 \<noteq> HANDLE_VERSION"
      using that h' lh j v(2) by (simp add: flip_bit_neq)
    then show ?thesis by (simp add: dv)
  qed
  have sig: "DoVerify gk h' (Some pw) = Returns False" if "25 \<le> i" "i < 57"
  proof -
    have same: "take metadata_length h' = take metadata_length h"
      "salt (handle_at h') = salt (handle_at h)"
      "user_id (handle_at h') = user_id (handle_at h)"
      "authenticator_id (handle_at h') = authenticator_id (handle_at h)"
      "version (handle_at h') = version (handle_at h)"
      using that h' by (simp_all add: handle_at_def metadata_length_def drop_update_swap)
    have "handle_at h' \<noteq> handle_at h"
      using tampered_handle(2) [OF c key j _ h'] that
      by (simp add: sizeof_password_handle_t_def)
    with same have "signature (handle_at h') \<noteq> signature (handle_at h)"
      by (auto intro: password_handle_t.equality)
    then show ?thesis
      using same v by (simp add: dv)
  qed
  have ids: "DoVerify gk h' (Some pw) =
       Returns (ComputePasswordSignature gk key (take metadata_length h' @ pw) slt =
                ComputePasswordSignature gk key (take metadata_length h @ pw) slt)"
    if "1 \<le> i" "i < 17"
  proof -
    have same: "h' ! 0 = h ! 0"
      "salt (handle_at h') = salt (handle_at h)"
      "signature (handle_at h') = signature (handle_at h)"
      using that h' by (simp_all add: handle_at_def)
    show ?thesis
      using same v by (auto simp: dv)
  qed
  from version sig ids show ?thesis by blast
qed

theorem tamper_sensitivity_witness:
  "CreatePasswordHandle example_gk 7 5 9 [1, 2, 3] = Some example_handle \<and>
   password_key example_gk = Some [1] \<and> (0::nat) < 8 \<and>
   DoVerify example_gk (example_handle[0 := flip_bit 0 (example_handle ! 0)]) (Some [1, 2, 3])
     = Returns False \<and>
   DoVerify example_gk (example_handle[25 := flip_bit 0 (example_handle ! 25)])
       (Some [1, 2, 3])
     = Returns False \<and>
   DoVerify example_gk (example_handle[1 := flip_bit 0 (example_handle ! 1)]) (Some [1, 2, 3])
     = Returns False"
proof -
  have j: "(0::nat) < 8" by simp
  note t = tamper_sensitivity [OF example_handle_created example_gk_simps(1) j refl]
  have m: "ComputePasswordSignature example_gk [1]
      (take metadata_length (example_handle[1 := flip_bit 0 (example_handle ! 1)]) @ [1, 2, 3]) 7
    \<noteq> ComputePasswordSignature example_gk [1]
      (take metadata_length example_handle @ [1, 2, 3]) 7"
    by (simp add: example_gk_simps toy_signature_def metadata_length_def example_handle_def
        flip_bit_eq_xor)
  from t [of 0] t [of 25] t [of 1] m show ?thesis
    by (simp add: example_handle_created example_gk_simps)
qed

text \<open>
  On the platform whose password signature depends on the key alone, a handle whose secure
  id has its lowest bit flipped still verifies with the original password.
\<close>

theorem tampered_user_id_accepted:
  "CreatePasswordHandle weak_gk 7 5 9 [1, 2, 3] = Some weak_handle \<and>
   DoVerify weak_gk (weak_handle[1 := flip_bit 0 (weak_handle ! 1)]) (Some [1, 2, 3])
     = Returns True"
  by (simp add: eval_defs weak_gk_simps weak_handle_def flip_bit_eq_xor)

text \<open>
  Claim C9, as amended. \<^verbatim>\<open>DoVerify\<close> compares all the bytes of the rebuilt handle with
  the presented one, not the signature field alone: on a buffer that holds a whole handle
  struct it returns true exactly when the handle rebuilt from the presented salt, secure id
  and authenticator id equals the first 57 bytes presented. A valid handle whose version
  byte alone is changed is rejected, although the rebuilt handle agrees with it on every
  other byte, the signature included. The rebuilt handle takes its salt from the presented
  handle, so the salt bytes of the two always agree: after one bit of the salt field
  (offsets 17 to 24) is flipped, the salt read from the handle differs from the original
  one, and \<^verbatim>\<open>DoVerify\<close> with the original password returns false exactly when the
  signature computed under the changed salt differs from the stored signature.
\<close>

theorem salt_tamper:
  assumes c: "CreatePasswordHandle gk slt uid aid pw = Some h"
    and key: "password_key gk = Some key"
  shows "(sizeof_password_handle_t \<le> length hb \<longrightarrow>
            DoVerify gk hb (Some pw') =
              Returns (CreatePasswordHandle gk (salt (handle_at hb)) (user_id (handle_at hb))
                         (authenticator_id (handle_at hb)) pw'
                       = Some (take sizeof_password_handle_t hb))) \<and>
         (v \<noteq> HANDLE_VERSION \<longrightarrow>
            CreatePasswordHandle gk (salt (handle_at (h[0 := v]))) (user_id (handle_at (h[0 := v])))
              (authenticator_id (handle_at (h[0 := v]))) pw = Some h \<and>
            drop 1 h = drop 1 (h[0 := v]) \<and>
            DoVerify gk (h[0 := v]) (Some pw) = Returns False) \<and>
         (j < 8 \<and> 17 \<le> i \<and> i < 25 \<and> h' = h[i := flip_bit j (h ! i)] \<longrightarrow>
            salt (handle_at h') \<noteq> slt \<and>
            CreatePasswordHandle gk (salt (handle_at h')) uid aid pw \<noteq> None \<and>
            DoVerify gk h' (Some pw) =
              Returns (CreatePasswordHandle gk (salt (handle_at h')) uid aid pw = Some h') \<and>
            DoVerify gk h' (Some pw) =
              Returns (ComputePasswordSignature gk key (take metadata_length h @ pw)
                         (salt (handle_at h')) =
                       ComputePasswordSignature gk key (take metadata_length h @ pw) slt))"
proof -
  note v = CreatePasswordHandle_valid [OF c key]
  have whole: "DoVerify gk hb (Some pw') =
              Returns (CreatePasswordHandle gk (salt (handle_at hb)) (user_id (handle_at hb))
                         (authenticator_id (handle_at hb)) pw'
                       = Some (take sizeof_password_handle_t hb))"
    if "sizeof_password_handle_t \<le> length hb"
    using that key v(8) by (rule DoVerify_whole_struct)
  have ver: "CreatePasswordHandle gk (salt (handle_at (h[0 := v])))
              (user_id (handle_at (h[0 := v])))
              (authenticator_id (handle_at (h[0 := v]))) pw = Some h \<and>
            drop 1 h = drop 1 (h[0 := v]) \<and>
            DoVerify gk (h[0 := v]) (Some pw) = Returns False"
    if "v \<noteq> HANDLE_VERSION"
  proof -
    have lh: "length h = 57" using v(1) by (simp add: sizeof_password_handle_t_def)
    have len: "sizeof_password_handle_t \<le> length (h[0 := v])" using v(1) by simp
    have same: "salt (handle_at (h[0 := v])) = salt (handle_at h)"
      "user_id (handle_at (h[0 := v])) = user_id (handle_at h)"
      "authenticator_id (handle_at (h[0 := v])) = authenticator_id (handle_at h)"
      by (simp_all add: handle_at_def)
    have "(h[0 := v]) ! 0 \<noteq> HANDLE_VERSION"
      using that lh by simp
    then have "DoVerify gk (h[0 := v]) (Some pw) = Returns False"
      by (simp add: DoVerify_key [OF len key v(8)])
    then show ?thesis
      using same v(3,4,5) c by simp
  qed
  have slt: "salt (handle_at h') \<noteq> slt \<and>
            CreatePasswordHandle gk (salt (handle_at h')) uid aid pw \<noteq> None \<and>
            DoVerify gk h' (Some pw) =
              Returns (CreatePasswordHandle gk (salt (handle_at h')) uid aid pw = Some h') \<and>
            DoVerify gk h' (Some pw) =
              Returns (ComputePasswordSignature gk key (take metadata_length h @ pw)
                         (salt (handle_at h')) =
                       ComputePasswordSignature gk key (take metadata_length h @ pw) slt)"
    if j: "j < 8" and i: "17 \<le> i" "i < 25" and h': "h' = h[i := flip_bit j (h ! i)]"
  proof -
    have len: "sizeof_password_handle_t \<le> length h'" using v(1) h' by simp
    note dv = DoVerify_key [OF len key v(8), of pw]
    have same: "take metadata_length h' = take metadata_length h"
      "h' ! 0 = h ! 0"
      "user_id (handle_at h') = user_id (handle_at h)"
      "authenticator_id (handle_at h') = authenticator_id (handle_at h)"
      "version (handle_at h') = version (handle_at h)"
      "signature (handle_at h') = signature (handle_at h)"
      using i h' by (simp_all add: handle_at_def metadata_length_def drop_update_swap)
    have "handle_at h' \<noteq> handle_at h"
      using tampered_handle(2) [OF c key j _ h'] i
      by (simp add: sizeof_password_handle_t_def)
    with same have ne: "salt (handle_at h') \<noteq> salt (handle_at h)"
      by (auto intro: password_handle_t.equality)
    have d: "DoVerify gk h' (Some pw) =
             Returns (ComputePasswordSignature gk key (take metadata_length h @ pw)
                        (salt (handle_at h')) =
                      ComputePasswordSignature gk key (take metadata_length h @ pw) slt)"
      using same v by (auto simp: dv)
    have w: "DoVerify gk h' (Some pw) =
        Returns (CreatePasswordHandle gk (salt (handle_at h')) uid aid pw = Some h')"
      using DoVerify_whole_struct [OF len key v(8), of pw] same(3,4) v(1,3,4) h'
      by simp
    have cr: "CreatePasswordHandle gk (salt (handle_at h')) uid aid pw \<noteq> None"
      using key v(8) by (simp add: CreatePasswordHandle_key)
    from d ne cr w v(5) show ?thesis by simp
  qed
  from whole ver slt show ?thesis by blast
qed

theorem salt_tamper_witness:
  "CreatePasswordHandle example_gk 7 5 9 [1, 2, 3] = Some example_handle \<and>
   password_key example_gk = Some [1] \<and>
   sizeof_password_handle_t \<le> length (example_handle[0 := 1]) \<and>
   DoVerify example_gk (example_handle[0 := 1]) (Some [1, 2, 3])
     = Returns (CreatePasswordHandle example_gk 7 5 9 [1, 2, 3]
                = Some (take sizeof_password_handle_t (example_handle[0 := 1]))) \<and>
   (1 :: u8) \<noteq> HANDLE_VERSION \<and>
   drop 1 example_handle = drop 1 (example_handle[0 := 1]) \<and>
   DoVerify example_gk (example_handle[0 := 1]) (Some [1, 2, 3]) = Returns False \<and>
   (0::nat) < 8 \<and> (17::nat) \<le> 17 \<and> (17::nat) < 25 \<and>
   salt (handle_at (example_handle[17 := flip_bit 0 (example_handle ! 17)])) = 6 \<and>
   DoVerify example_gk (example_handle[17 := flip_bit 0 (example_handle ! 17)])
       (Some [1, 2, 3])
     = Returns False"
proof -
  note t = salt_tamper [OF example_handle_created example_gk_simps(1)]
  have l: "sizeof_password_handle_t \<le> length (example_handle[0 := 1])"
    by (simp add: example_handle_simps sizeof_password_handle_t_def)
  have f: "salt (handle_at (example_handle[0 := 1])) = 7"
    "user_id (handle_at (example_handle[0 := 1])) = 5"
    "authenticator_id (handle_at (example_handle[0 := 1])) = 9"
    by (simp_all add: handle_at_def example_handle_def)
  have n: "(1 :: u8) \<noteq> HANDLE_VERSION" by (simp add: HANDLE_VERSION_def)
  have s: "salt (handle_at (example_handle[17 := flip_bit 0 (example_handle ! 17)])) = 6"
    by (simp add: handle_at_def example_handle_def flip_bit_eq_xor)
  have m: "ComputePasswordSignature example_gk [1]
      (take metadata_length example_handle @ [1, 2, 3]) 6
    \<noteq> ComputePasswordSignature example_gk [1]
      (take metadata_length example_handle @ [1, 2, 3]) 7"
    by (simp add: example_gk_simps toy_signature_def metadata_length_def example_handle_def)
  have a: "DoVerify example_gk (example_handle[0 := 1]) (Some [1, 2, 3])
     = Returns (CreatePasswordHandle example_gk 7 5 9 [1, 2, 3]
                = Some (take sizeof_password_handle_t (example_handle[0 := 1])))"
    using t [where hb = "example_handle[0 := 1]" and pw' = "[1, 2, 3]", THEN conjunct1] l f
    by simp
  have b: "drop 1 example_handle = drop 1 (example_handle[0 := 1]) \<and>
     DoVerify example_gk (example_handle[0 := 1]) (Some [1, 2, 3]) = Returns False"
    using t [where v = 1, THEN conjunct2, THEN conjunct1] n by simp
  have d: "DoVerify example_gk (example_handle[17 := flip_bit 0 (example_handle ! 17)])
       (Some [1, 2, 3]) = Returns False"
  proof -
    have hy: "(0::nat) < 8 \<and> (17::nat) \<le> 17 \<and> (17::nat) < 25 \<and>
        example_handle[17 := flip_bit 0 (example_handle ! 17)]
          = example_handle[17 := flip_bit 0 (example_handle ! 17)]"
      by simp
    from t [where j = 0 and i = 17
        and h' = "example_handle[17 := flip_bit 0 (example_handle ! 17)]",
        THEN conjunct2, THEN conjunct2, THEN mp, OF hy,
        THEN conjunct2, THEN conjunct2, THEN conjunct2] s m
    show ?thesis by (simp add: example_gk_simps)
  qed
  from a b d l n s show ?thesis
    by (simp add: example_handle_created example_gk_simps)
qed

text \<open>
  On the platform whose password signature depends on the key alone, a handle whose salt
  has its lowest bit flipped still verifies with the original password.
\<close>

theorem tampered_salt_accepted:
  "CreatePasswordHandle weak_gk 7 5 9 [1, 2, 3] = Some weak_handle \<and>
   DoVerify weak_gk (weak_handle[17 := flip_bit 0 (weak_handle ! 17)]) (Some [1, 2, 3])
     = Returns True"
  by (simp add: eval_defs weak_gk_simps weak_handle_def flip_bit_eq_xor)

section \<open>Verify\<close>

text \<open>
  Claim C1. Let a \<^verbatim>\<open>Verify\<close> request carry a password and a handle that passes the
  version check, and let the password file of the user be absent, empty or different from
  the presented handle. Then \<^verbatim>\<open>Verify\<close> still runs \<^verbatim>\<open>DoVerify\<close> on the handle, and its
  response is decided by it: when the signature matches, the response carries a token
  whose root and auxiliary secure ids are both 0, whatever the handle's own identity
  fields are; when it does not match, the response is the error.
\<close>

theorem Verify_fallback_scoping:
  assumes "provided_password request = Some pw" and "password_handle request = Some hb"
    and "hb \<noteq> []" and "hb ! 0 = HANDLE_VERSION"
    and "password_files gk (request_user_id request) \<noteq> Some hb"
  shows "Verify gk request (Some resp) =
      (case DoVerify gk hb (Some pw) of
         OutOfBounds \<Rightarrow> OutOfBounds
       | Returns ok \<Rightarrow>
           Returns (Some (if ok
             then SetVerificationToken resp
                    (MintAuthToken gk (word_of_int (monotonic_sec gk)) 0 0)
             else invalid resp)))
    \<and> root_secure_user_id (MintAuthToken gk (word_of_int (monotonic_sec gk)) 0 0) = 0
    \<and> auxiliary_secure_user_id (MintAuthToken gk (word_of_int (monotonic_sec gk)) 0 0) = 0"
  using assms
  by (simp add: Verify_def ValidatePasswordFile_iff timestamp_cast Let_def split: exec.split)

theorem Verify_fallback_scoping_witness:
  "provided_password (verify_request example_handle [1, 2, 3]) = Some [1, 2, 3] \<and>
   password_handle (verify_request example_handle [1, 2, 3]) = Some example_handle \<and>
   example_handle \<noteq> [] \<and> example_handle ! 0 = HANDLE_VERSION \<and>
   password_files example_gk (request_user_id (verify_request example_handle [1, 2, 3]))
     \<noteq> Some example_handle \<and>
   user_id (handle_at example_handle) = 5 \<and>
   authenticator_id (handle_at example_handle) = 9 \<and>
   Verify example_gk (verify_request example_handle [1, 2, 3]) (Some fresh_verify_response)
     = Returns (Some (SetVerificationToken fresh_verify_response
         (MintAuthToken example_gk 100 0 0))) \<and>
   root_secure_user_id (MintAuthToken example_gk 100 0 0) = 0 \<and>
   auxiliary_secure_user_id (MintAuthToken example_gk 100 0 0) = 0"
proof -
  have h: "example_handle \<noteq> []" "example_handle ! 0 = HANDLE_VERSION"
    "password_files example_gk (request_user_id (verify_request example_handle [1, 2, 3]))
       \<noteq> Some example_handle"
    by (simp_all add: example_handle_def HANDLE_VERSION_def example_gk_simps)
  have f: "user_id (handle_at example_handle) = 5"
    "authenticator_id (handle_at example_handle) = 9"
    by (simp_all add: handle_at_def example_handle_def)
  from Verify_fallback_scoping [OF example_request_simps(1) example_request_simps(2) h,
      of fresh_verify_response]
  show ?thesis
    using h f by (simp add: example_request_simps example_handle_verifies example_gk_more)
qed

text \<open>
  Claim C6, as amended. A \<^verbatim>\<open>Verify\<close> call returns the error response, with the error
  field \<^verbatim>\<open>ERROR_INVALID\<close>, whenever the password buffer or the handle buffer is missing,
  and whenever the handle buffer is not empty and its version byte differs from
  \<^verbatim>\<open>HANDLE_VERSION\<close>, whatever the password file and the password are. The length of the
  handle is not compared with the size of the handle struct: a buffer that starts with the
  handle made for the presented password is verified and gets a token, however many bytes
  follow the handle.
\<close>

theorem Verify_version_check:
  "(provided_password request = None \<or> password_handle request = None \<longrightarrow>
      Verify gk request (Some resp) = Returns (Some (invalid resp))) \<and>
   (password_handle request = Some hb \<and> hb \<noteq> [] \<and> hb ! 0 \<noteq> HANDLE_VERSION \<longrightarrow>
      Verify gk request (Some resp) = Returns (Some (invalid resp))) \<and>
   error (invalid resp) = ERROR_INVALID \<and>
   (CreatePasswordHandle gk slt uid aid pw = Some h \<and>
    password_handle request = Some (h @ rest) \<and> provided_password request = Some pw \<longrightarrow>
      (\<exists>tok. Verify gk request (Some resp) = Returns (Some (SetVerificationToken resp tok)) \<and>
             error (SetVerificationToken resp tok) = error resp \<and>
             verification_token (SetVerificationToken resp tok) = Some tok))"
proof -
  have a: "Verify gk request (Some resp) = Returns (Some (invalid resp))"
    if "provided_password request = None \<or> password_handle request = None"
    using that by (auto simp: Verify_def split: option.split)
  have b: "Verify gk request (Some resp) = Returns (Some (invalid resp))"
    if "password_handle request = Some hb" "hb \<noteq> []" "hb ! 0 \<noteq> HANDLE_VERSION"
    using that by (simp add: Verify_def split: option.split)
  have c: "error (invalid resp) = ERROR_INVALID"
    by (simp add: invalid_def)
  have d: "\<exists>tok. Verify gk request (Some resp) = Returns (Some (SetVerificationToken resp tok)) \<and>
             error (SetVerificationToken resp tok) = error resp \<and>
             verification_token (SetVerificationToken resp tok) = Some tok"
    if "CreatePasswordHandle gk slt uid aid pw = Some h"
      "password_handle request = Some (h @ rest)" "provided_password request = Some pw"
    using Verify_token [OF that(3) that(2) DoVerify_appended [OF that(1)], of resp]
    by (auto simp: SetVerificationToken_def)
  from a b c d show ?thesis by blast
qed

theorem Verify_version_check_witness:
  "provided_password \<lparr> request_user_id = 0, password_handle = Some example_handle,
       provided_password = None \<rparr> = None \<and>
   Verify example_gk \<lparr> request_user_id = 0, password_handle = Some example_handle,
       provided_password = None \<rparr> (Some fresh_verify_response)
     = Returns (Some (invalid fresh_verify_response)) \<and>
   password_handle (verify_request (example_handle[0 := 1]) [1, 2, 3])
     = Some (example_handle[0 := 1]) \<and>
   example_handle[0 := 1] \<noteq> [] \<and> (example_handle[0 := 1]) ! 0 \<noteq> HANDLE_VERSION \<and>
   Verify example_gk (verify_request (example_handle[0 := 1]) [1, 2, 3])
       (Some fresh_verify_response)
     = Returns (Some (invalid fresh_verify_response)) \<and>
   error (invalid fresh_verify_response) = ERROR_INVALID \<and>
   CreatePasswordHandle example_gk 7 5 9 [1, 2, 3] = Some example_handle \<and>
   password_handle (verify_request (example_handle @ [0]) [1, 2, 3])
     = Some (example_handle @ [0]) \<and>
   provided_password (verify_request (example_handle @ [0]) [1, 2, 3]) = Some [1, 2, 3] \<and>
   (\<exists>tok. Verify example_gk (verify_request (example_handle @ [0]) [1, 2, 3])
            (Some fresh_verify_response)
          = Returns (Some (SetVerificationToken fresh_verify_response tok)) \<and>
        error (SetVerificationToken fresh_verify_response tok) = error fresh_verify_response \<and>
        verification_token (SetVerificationToken fresh_verify_response tok) = Some tok)"
proof -
  have h: "example_handle[0 := 1] \<noteq> []" "(example_handle[0 := 1]) ! 0 \<noteq> HANDLE_VERSION"
    by (simp_all add: example_handle_def HANDLE_VERSION_def)
  note t1 = Verify_version_check [where gk = example_gk and resp = fresh_verify_response
      and request = "\<lparr> request_user_id = 0, password_handle = Some example_handle,
       provided_password = None \<rparr>", THEN conjunct1]
  note t2 = Verify_version_check [where gk = example_gk and resp = fresh_verify_response
      and request = "verify_request (example_handle[0 := 1]) [1, 2, 3]"
      and hb = "example_handle[0 := 1]", THEN conjunct2]
  note t3 = Verify_version_check [where gk = example_gk and resp = fresh_verify_response
      and request = "verify_request (example_handle @ [0]) [1, 2, 3]"
      and h = example_handle and rest = "[0]" and pw = "[1, 2, 3]"
      and slt = 7 and uid = 5 and aid = 9,
      THEN conjunct2, THEN conjunct2, THEN conjunct2]
  from t1 t2 t3 h show ?thesis
    by (simp add: example_request_simps example_handle_created)
qed

text \<open>
  A handle of 58 bytes, one more than the handle struct has, whose first 57 bytes are a
  valid handle: \<^verbatim>\<open>Verify\<close> returns a token, not the error.
\<close>

theorem Verify_accepts_longer_handle:
  "length (example_handle @ [0]) \<noteq> sizeof_password_handle_t \<and>
   Verify example_gk (verify_request (example_handle @ [0]) [1, 2, 3])
       (Some fresh_verify_response)
     = Returns (Some \<lparr> error = ERROR_NONE,
         verification_token = Some \<lparr> root_secure_user_id = 0, auxiliary_secure_user_id = 0,
           timestamp = 100, hmac = 102 \<rparr> \<rparr>)"
  by (simp add: Verify_def verify_request_def fresh_verify_response_def eval_defs
      example_gk_def example_handle_def ValidatePasswordFile_def ReadPasswordFile_def
      SetVerificationToken_def MintAuthToken_def GetAuthTokenKey_def)

text \<open>
  Claim C7, as amended. \<^verbatim>\<open>MintAuthToken\<close> has no failing outcome: it returns nothing and
  does not examine what the key service hands back. Whenever the signature check of a
  \<^verbatim>\<open>Verify\<close> call succeeds, \<^verbatim>\<open>Verify\<close> returns the response with a verification token
  and with its error field as it was, whether or not the auth-token key is available.
\<close>

theorem Verify_mints_without_key_check:
  assumes "provided_password request = Some pw" and "password_handle request = Some hb"
    and "DoVerify gk hb (Some pw) = Returns True"
  shows "\<exists>tok. Verify gk request (Some resp) = Returns (Some (SetVerificationToken resp tok)) \<and>
           error (SetVerificationToken resp tok) = error resp \<and>
           verification_token (SetVerificationToken resp tok) = Some tok \<and>
           timestamp tok = word_of_int (monotonic_sec gk)"
proof -
  from DoVerify_TrueD [OF assms(3)]
  have len: "sizeof_password_handle_t \<le> length hb" and v: "hb ! 0 = HANDLE_VERSION"
    by simp_all
  from len have l: "hb \<noteq> []" "\<not> length hb < 1 + 8 + 8"
    by (auto simp: sizeof_password_handle_t_def)
  let ?valid = "ValidatePasswordFile gk (request_user_id request) (Some hb)"
  let ?tok = "MintAuthToken gk (word_of_int (monotonic_sec gk))
      (if ?valid then user_id (handle_at hb) else 0)
      (if ?valid then authenticator_id (handle_at hb) else 0)"
  have "Verify gk request (Some resp) = Returns (Some (SetVerificationToken resp ?tok))"
    using assms l v by (simp add: Verify_def Let_def timestamp_cast)
  moreover have "error (SetVerificationToken resp ?tok) = error resp"
    "verification_token (SetVerificationToken resp ?tok) = Some ?tok"
    by (simp_all add: SetVerificationToken_def)
  moreover have "timestamp ?tok = word_of_int (monotonic_sec gk)"
    by simp
  ultimately show ?thesis by blast
qed

theorem Verify_mints_without_key_check_witness:
  "provided_password (verify_request example_handle [1, 2, 3]) = Some [1, 2, 3] \<and>
   password_handle (verify_request example_handle [1, 2, 3]) = Some example_handle \<and>
   DoVerify keyless_gk example_handle (Some [1, 2, 3]) = Returns True \<and>
   GetAuthTokenKey keyless_gk = None \<and>
   (\<exists>tok. Verify keyless_gk (verify_request example_handle [1, 2, 3])
            (Some fresh_verify_response)
          = Returns (Some (SetVerificationToken fresh_verify_response tok)) \<and>
        error (SetVerificationToken fresh_verify_response tok) = error fresh_verify_response \<and>
        verification_token (SetVerificationToken fresh_verify_response tok) = Some tok \<and>
        timestamp tok = word_of_int (monotonic_sec keyless_gk))"
  using Verify_mints_without_key_check [OF example_request_simps(1) example_request_simps(2)
      keyless_handle_verifies, of fresh_verify_response]
  by (simp add: example_request_simps keyless_handle_verifies GetAuthTokenKey_def
      example_gk_more)

text \<open>
  The key service hands out no auth-token key, the password is the right one: \<^verbatim>\<open>Verify\<close>
  returns a response whose error field is \<^verbatim>\<open>ERROR_NONE\<close> and which carries a token.
\<close>

theorem Verify_succeeds_without_auth_token_key:
  "GetAuthTokenKey keyless_gk = None \<and>
   DoVerify keyless_gk example_handle (Some [1, 2, 3]) = Returns True \<and>
   Verify keyless_gk (verify_request example_handle [1, 2, 3]) (Some fresh_verify_response)
     = Returns (Some \<lparr> error = ERROR_NONE,
         verification_token = Some \<lparr> root_secure_user_id = 0, auxiliary_secure_user_id = 0,
           timestamp = 100, hmac = 100 \<rparr> \<rparr>)"
  by (simp add: keyless_handle_verifies Verify_def verify_request_def
      fresh_verify_response_def example_gk_more example_handle_simps HANDLE_VERSION_def
      ValidatePasswordFile_def ReadPasswordFile_def
      SetVerificationToken_def MintAuthToken_def GetAuthTokenKey_def to_bytes_def upt_rec)

section \<open>Enroll\<close>



text \<open>
  Claim C5. An \<^verbatim>\<open>Enroll\<close> call that ends with the error response (the new password
  buffer is missing, the prior handle does not match the password file, the old password
  is wrong, or the password key is unavailable) leaves the password files as they were
  and has made no call of \<^verbatim>\<open>WritePasswordFile\<close>.
\<close>

theorem Enroll_failure_no_write:
  assumes "Enroll gk request (Some resp) = Returns (Some resp', gk')"
    and "error resp = ERROR_NONE" and "error resp' = ERROR_INVALID"
  shows "password_files gk' = password_files gk \<and> file_writes gk' = file_writes gk"
  using assms
  by (auto simp: Enroll_def split_beta invalid_def SetEnrolledPasswordHandle_def
      split: option.splits exec.splits dest!: Enroll_user_id_SomeD)

theorem Enroll_failure_no_write_witness:
  "Enroll enrolled_gk (reenroll_request example_handle [1, 2, 4] [7, 7])
       (Some fresh_enroll_response)
     = Returns (Some (invalid fresh_enroll_response), enrolled_gk) \<and>
   error fresh_enroll_response = ERROR_NONE \<and>
   error (invalid fresh_enroll_response) = ERROR_INVALID \<and>
   password_files enrolled_gk 0 = Some example_handle \<and>
   file_writes enrolled_gk = []"
proof -
  have e: "error fresh_enroll_response = ERROR_NONE"
    "error (invalid fresh_enroll_response) = ERROR_INVALID"
    by (simp_all add: fresh_enroll_response_def invalid_def)
  from Enroll_failure_no_write [OF enroll_wrong_old_password e]
  show ?thesis
    using enroll_wrong_old_password e by (simp add: example_gk_more)
qed

text \<open>
  Claim C10, as amended. An \<^verbatim>\<open>Enroll\<close> call with a prior handle that holds a whole
  handle struct (57 bytes or more) and whose version byte differs from \<^verbatim>\<open>HANDLE_VERSION\<close>
  returns the error response, with the error field \<^verbatim>\<open>ERROR_INVALID\<close>, and changes
  nothing, though \<^verbatim>\<open>Enroll\<close> has no version check: the handle that \<^verbatim>\<open>DoVerify\<close>
  rebuilds starts with the current version byte, so it differs from the prior handle and
  \<^verbatim>\<open>DoVerify\<close> returns false for every old password.
\<close>

theorem Enroll_rejects_old_version:
  assumes "password_handle request = Some hb" and "sizeof_password_handle_t \<le> length hb"
    and "hb ! 0 \<noteq> HANDLE_VERSION"
  shows "DoVerify gk hb (enrolled_password request) = Returns False \<and>
         Enroll gk request (Some resp) = Returns (Some (invalid resp), gk) \<and>
         error (invalid resp) = ERROR_INVALID \<and>
         (CreatePasswordHandle gk (salt (handle_at hb)) (user_id (handle_at hb))
            (authenticator_id (handle_at hb)) old_pw = Some p \<longrightarrow>
          p ! 0 = HANDLE_VERSION \<and>
          take sizeof_password_handle_t p \<noteq> take sizeof_password_handle_t hb)"
proof -
  have l25: "1 + 8 + 8 + 8 \<le> length hb"
    using assms(2) by (simp add: sizeof_password_handle_t_def)
  have d: "DoVerify gk hb pw = Returns False" for pw
  proof (cases "password_key gk = None \<or> password_key gk = Some []")
    case True
    then show ?thesis by (rule DoVerify_no_key [OF l25])
  next
    case False
    then obtain key where k: "password_key gk = Some key" "key \<noteq> []" by auto
    show ?thesis
    proof (cases pw)
      case None
      then show ?thesis by (simp add: DoVerify_def)
    next
      case (Some p)
      then show ?thesis using assms(3) by (simp add: DoVerify_key [OF assms(2) k])
    qed
  qed
  then have "Enroll_user_id gk request = Returns None"
    using assms(1) by (simp add: Enroll_user_id_def)
  then have e: "Enroll gk request (Some resp) = Returns (Some (invalid resp), gk)"
    by (simp add: Enroll_def split: option.split)
  have r: "p ! 0 = HANDLE_VERSION \<and>
          take sizeof_password_handle_t p \<noteq> take sizeof_password_handle_t hb"
    if c: "CreatePasswordHandle gk (salt (handle_at hb)) (user_id (handle_at hb))
            (authenticator_id (handle_at hb)) old_pw = Some p"
  proof -
    from c obtain key where k: "password_key gk = Some key"
      by (auto elim: CreatePasswordHandle_SomeD)
    note v = CreatePasswordHandle_valid [OF c k]
    have "take sizeof_password_handle_t p ! 0 = p ! 0"
      "take sizeof_password_handle_t hb ! 0 = hb ! 0"
      by (simp_all add: sizeof_password_handle_t_def)
    with v(2) assms(3) show ?thesis by metis
  qed
  from d e r show ?thesis by (simp add: invalid_def)
qed

theorem Enroll_rejects_old_version_witness:
  "password_handle (reenroll_request (example_handle[0 := 1]) [1, 2, 3] [7, 7])
     = Some (example_handle[0 := 1]) \<and>
   sizeof_password_handle_t \<le> length (example_handle[0 := 1]) \<and>
   (example_handle[0 := 1]) ! 0 \<noteq> HANDLE_VERSION \<and>
   ValidatePasswordFile stale_gk 0 (Some (example_handle[0 := 1])) \<and>
   DoVerify stale_gk (example_handle[0 := 1]) (Some [1, 2, 3]) = Returns False \<and>
   Enroll stale_gk (reenroll_request (example_handle[0 := 1]) [1, 2, 3] [7, 7])
       (Some fresh_enroll_response)
     = Returns (Some (invalid fresh_enroll_response), stale_gk) \<and>
   error (invalid fresh_enroll_response) = ERROR_INVALID \<and>
   CreatePasswordHandle stale_gk (salt (handle_at (example_handle[0 := 1])))
     (user_id (handle_at (example_handle[0 := 1])))
     (authenticator_id (handle_at (example_handle[0 := 1]))) [1, 2, 3] = Some example_handle \<and>
   example_handle ! 0 = HANDLE_VERSION \<and>
   take sizeof_password_handle_t example_handle
     \<noteq> take sizeof_password_handle_t (example_handle[0 := 1])"
proof -
  have h: "sizeof_password_handle_t \<le> length (example_handle[0 := 1])"
    "(example_handle[0 := 1]) ! 0 \<noteq> HANDLE_VERSION"
    by (simp_all add: example_handle_simps sizeof_password_handle_t_def HANDLE_VERSION_def)
  have v: "ValidatePasswordFile stale_gk 0 (Some (example_handle[0 := 1]))"
    by (simp add: ValidatePasswordFile_iff stale_gk_def example_handle_simps)
  have f: "salt (handle_at (example_handle[0 := 1])) = 7"
    "user_id (handle_at (example_handle[0 := 1])) = 5"
    "authenticator_id (handle_at (example_handle[0 := 1])) = 9"
    by (simp_all add: handle_at_def example_handle_def)
  have c: "CreatePasswordHandle stale_gk (salt (handle_at (example_handle[0 := 1])))
     (user_id (handle_at (example_handle[0 := 1])))
     (authenticator_id (handle_at (example_handle[0 := 1]))) [1, 2, 3] = Some example_handle"
    unfolding f by (simp add: eval_defs stale_gk_def example_gk_def example_handle_def)
  from Enroll_rejects_old_version [OF example_request_simps(5) h,
      where gk = stale_gk and resp = fresh_enroll_response
        and old_pw = "[1, 2, 3]" and p = example_handle]
  show ?thesis
    using h v c by (simp add: example_request_simps)
qed

text \<open>
  A prior handle of one byte, the byte 1, which is also the stored password file:
  \<^verbatim>\<open>Enroll\<close> passes the check against the file and \<^verbatim>\<open>DoVerify\<close> reads the salt past
  the end of the buffer; the call does not return the error response.
\<close>

theorem Enroll_short_handle_read_past_end:
  "password_handle (reenroll_request [1] [1, 2, 3] [7, 7]) = Some [1] \<and>
   ([1] :: u8 list) ! 0 \<noteq> HANDLE_VERSION \<and>
   ValidatePasswordFile short_gk 0 (Some [1]) \<and>
   Enroll short_gk (reenroll_request [1] [1, 2, 3] [7, 7]) (Some fresh_enroll_response)
     = OutOfBounds \<and>
   Enroll short_gk (reenroll_request [1] [1, 2, 3] [7, 7]) (Some fresh_enroll_response)
     \<noteq> Returns (Some (invalid fresh_enroll_response), short_gk)"
  by (simp add: Enroll_def Enroll_user_id_def DoVerify_def example_request_simps
      ValidatePasswordFile_iff short_gk_def HANDLE_VERSION_def)

end
